theory Spec2Isabelle
  imports Main
begin

section \<open>cobra-prompt: an interactive prompt over a cobra command tree\<close>

text \<open>
  A shallow embedding of \<^verbatim>\<open>cobra-prompt.go\<close> and of the example application that
  configures it. Go strings are byte strings (\<^typ>\<open>string\<close>); a panic is a value of
  \<open>error\<close> on the left of a sum.
\<close>

subsection \<open>Panics\<close>

datatype error =
  SliceBounds int int      \<comment> \<open>slice bounds out of range \<open>[lo:hi]\<close>\<close>
| NilPointer               \<comment> \<open>nil pointer dereference\<close>
| PanicMsg string          \<comment> \<open>\<^verbatim>\<open>panic(v)\<close> with a message or an error value\<close>
| ShorthandRedefined string string
    \<comment> \<open>pflag's panic on adding a flag whose shorthand a flag of the set already uses:
        the shorthand and the name of the flag that uses it\<close>

subsection \<open>The Go string functions the package calls\<close>

definition HasPrefix :: "string \<Rightarrow> string \<Rightarrow> bool" where
  \<comment> \<open>\<^verbatim>\<open>len(s) >= len(prefix) && s[:len(prefix)] == prefix\<close>\<close>
  "HasPrefix s pre = (length pre \<le> length s \<and> take (length pre) s = pre)"

definition HasSuffix :: "string \<Rightarrow> string \<Rightarrow> bool" where
  \<comment> \<open>\<^verbatim>\<open>len(s) >= len(suffix) && s[len(s)-len(suffix):] == suffix\<close>\<close>
  "HasSuffix s suf = (length suf \<le> length s \<and> drop (length s - length suf) s = suf)"

definition slice :: "string \<Rightarrow> int \<Rightarrow> int \<Rightarrow> error + string" where
  \<comment> \<open>\<^verbatim>\<open>s[lo:hi]\<close>: panics unless \<open>0 \<le> lo \<le> hi \<le> len(s)\<close>\<close>
  "slice s lo hi =
     (if 0 \<le> lo \<and> lo \<le> hi \<and> hi \<le> int (length s)
      then Inr (take (nat (hi - lo)) (drop (nat lo) s))
      else Inl (SliceBounds lo hi))"

definition isSpace :: "char \<Rightarrow> bool" where
  \<comment> \<open>\<^verbatim>\<open>unicode.IsSpace\<close> on one-byte characters: tab, newline, vertical tab, form feed,
      carriage return and space\<close>
  "isSpace c = (c = CHR 0x09 \<or> c = CHR 0x0A \<or> c = CHR 0x0B \<or> c = CHR 0x0C \<or> c = CHR 0x0D
     \<or> c = CHR 0x20)"

function Fields :: "string \<Rightarrow> string list" where
  \<comment> \<open>\<^verbatim>\<open>strings.Fields\<close>: the maximal runs of characters that are not white space\<close>
  "Fields s =
     (case dropWhile isSpace s of
        [] \<Rightarrow> []
      | c # r \<Rightarrow> takeWhile (\<lambda>x. \<not> isSpace x) (c # r) # Fields (dropWhile (\<lambda>x. \<not> isSpace x) r))"
  by pat_completeness auto
termination
proof (relation "measure length")
  fix s :: string and c r
  assume a: "dropWhile isSpace s = c # r"
  have "length (dropWhile (\<lambda>x. \<not> isSpace x) r) \<le> length r"
    by (rule length_dropWhile_le)
  moreover have "length (dropWhile isSpace s) \<le> length s"
    by (rule length_dropWhile_le)
  ultimately show "(dropWhile (\<lambda>x. \<not> isSpace x) r, s) \<in> measure length"
    using a by simp
qed simp

definition upper_char :: "char \<Rightarrow> char" where
  \<comment> \<open>\<^verbatim>\<open>unicode.ToUpper\<close> on one-byte characters: the letters a to z\<close>
  "upper_char c =
     (let n = (of_char c :: nat) in if 97 \<le> n \<and> n \<le> 122 then char_of (n - 32) else c)"

definition ToUpper :: "string \<Rightarrow> string" where
  "ToUpper s = map upper_char s"

fun Contains :: "string \<Rightarrow> string \<Rightarrow> bool" where
  \<comment> \<open>\<^verbatim>\<open>strings.Contains(s, substr)\<close>\<close>
  "Contains [] substr = (substr = [])"
| "Contains (c # s) substr = (HasPrefix (c # s) substr \<or> Contains s substr)"

subsection \<open>The default tokenizer\<close>

text \<open>
  \<^verbatim>\<open>parseArgsWithQuotes\<close> collects the matches of the regular expression
  \<^verbatim>\<open>"[^"]+"|\S+\<close> and strips the surrounding quotes of each match. Go's matcher is
  leftmost-first: at the leftmost position where an alternative matches, the first
  alternative that matches wins, and both repetitions are greedy. The class \<^verbatim>\<open>\s\<close> is
  tab, newline, form feed, carriage return and space.
\<close>

definition quote :: char where
  "quote = CHR 0x22"

definition re_space :: "char \<Rightarrow> bool" where
  "re_space c = (c = CHR 0x09 \<or> c = CHR 0x0A \<or> c = CHR 0x0C \<or> c = CHR 0x0D \<or> c = CHR 0x20)"

definition match_quoted :: "string \<Rightarrow> (string \<times> string) option" where
  \<comment> \<open>the alternative \<^verbatim>\<open>"[^"]+"\<close> at the start of the text: the match and the rest\<close>
  "match_quoted s =
     (case s of
        [] \<Rightarrow> None
      | c # r \<Rightarrow>
          (let body = takeWhile (\<lambda>x. x \<noteq> quote) r;
               rest = dropWhile (\<lambda>x. x \<noteq> quote) r
           in if c = quote \<and> body \<noteq> [] \<and> rest \<noteq> []
              then Some (quote # body @ [quote], tl rest)
              else None))"

definition match_nonspace :: "string \<Rightarrow> (string \<times> string) option" where
  \<comment> \<open>the alternative \<^verbatim>\<open>\S+\<close> at the start of the text\<close>
  "match_nonspace s =
     (let m = takeWhile (\<lambda>x. \<not> re_space x) s
      in if m = [] then None else Some (m, dropWhile (\<lambda>x. \<not> re_space x) s))"

definition match_here :: "string \<Rightarrow> (string \<times> string) option" where
  "match_here s =
     (case match_quoted s of
        Some r \<Rightarrow> Some r
      | None \<Rightarrow> match_nonspace s)"

lemma match_quoted_shorter:
  "match_quoted s = Some (m, rest) \<Longrightarrow> length rest < length s"
proof -
  assume a: "match_quoted s = Some (m, rest)"
  then obtain c r where s: "s = c # r" by (cases s) (auto simp: match_quoted_def)
  from a s have "rest = tl (dropWhile (\<lambda>x. x \<noteq> quote) r)"
    by (auto simp: match_quoted_def Let_def split: if_splits)
  moreover have "length (dropWhile (\<lambda>x. x \<noteq> quote) r) \<le> length r"
    by (rule length_dropWhile_le)
  ultimately show ?thesis using s by simp
qed

lemma match_nonspace_shorter:
  "match_nonspace s = Some (m, rest) \<Longrightarrow> length rest < length s"
proof -
  assume a: "match_nonspace s = Some (m, rest)"
  let ?P = "\<lambda>x. \<not> re_space x"
  from a have m: "takeWhile ?P s \<noteq> []" and r: "rest = dropWhile ?P s"
    by (auto simp: match_nonspace_def Let_def split: if_splits)
  have "length (takeWhile ?P s) + length (dropWhile ?P s) = length s"
    by (metis length_append takeWhile_dropWhile_id)
  moreover from m have "0 < length (takeWhile ?P s)" by simp
  ultimately have "length (dropWhile ?P s) < length s" by linarith
  then show ?thesis using r by simp
qed

lemma match_here_shorter:
  "match_here s = Some (m, rest) \<Longrightarrow> length rest < length s"
  by (auto simp: match_here_def split: option.splits
      dest: match_quoted_shorter match_nonspace_shorter)

function FindAllString :: "string \<Rightarrow> string list" where
  "FindAllString [] = []"
| "FindAllString (c # s) =
     (case match_here (c # s) of
        Some (m, rest) \<Rightarrow> m # FindAllString rest
      | None \<Rightarrow> FindAllString s)"
  by pat_completeness auto
termination
  by (relation "measure length") (auto dest: match_here_shorter)

fun strip_quotes :: "string list \<Rightarrow> string list \<Rightarrow> error + string list" where
  \<comment> \<open>the loop over the matches; the second argument is \<^verbatim>\<open>args\<close>\<close>
  "strip_quotes [] args = Inr args"
| "strip_quotes (match # matches) args =
     (if HasPrefix match [quote] \<and> HasSuffix match [quote]
      then (case slice match 1 (int (length match) - 1) of
              Inl e \<Rightarrow> Inl e
            | Inr match' \<Rightarrow> strip_quotes matches (args @ [match']))
      else strip_quotes matches (args @ [match]))"

definition parseArgsWithQuotes :: "string \<Rightarrow> error + string list" where
  "parseArgsWithQuotes input = strip_quotes (FindAllString input) []"

subsection \<open>The line renderer's documents and suggestions\<close>

text \<open>
  go-prompt's \<^verbatim>\<open>Document\<close> is the text of the input buffer and the cursor position in
  it, which the renderer keeps within the text. \<^verbatim>\<open>Suggest\<close> is a completion candidate.
\<close>

record Document =
  DocText :: string
  cursorPosition :: nat

record Suggest =
  Text :: string
  Description :: string

definition TextBeforeCursor :: "Document \<Rightarrow> string" where
  "TextBeforeCursor d = take (cursorPosition d) (DocText d)"

definition TextAfterCursor :: "Document \<Rightarrow> string" where
  "TextAfterCursor d = drop (cursorPosition d) (DocText d)"

fun after_last :: "char \<Rightarrow> string \<Rightarrow> string" where
  \<comment> \<open>the text after the last occurrence of the character, all of it when there is none\<close>
  "after_last c [] = []"
| "after_last c (x # xs) = (if c \<in> set xs then after_last c xs
                           else if x = c then xs else x # xs)"

definition GetWordBeforeCursor :: "Document \<Rightarrow> string" where
  \<comment> \<open>\<^verbatim>\<open>x[d.FindStartOfPreviousWord():]\<close>, the start being after the last space of \<open>x\<close>\<close>
  "GetWordBeforeCursor d = after_last (CHR 0x20) (TextBeforeCursor d)"

definition CurrentLineBeforeCursor :: "Document \<Rightarrow> string" where
  "CurrentLineBeforeCursor d = after_last (CHR 0x0A) (TextBeforeCursor d)"

definition CurrentLineAfterCursor :: "Document \<Rightarrow> string" where
  "CurrentLineAfterCursor d = takeWhile (\<lambda>x. x \<noteq> CHR 0x0A) (TextAfterCursor d)"

definition CurrentLine :: "Document \<Rightarrow> string" where
  "CurrentLine d = CurrentLineBeforeCursor d @ CurrentLineAfterCursor d"

definition filterSuggestions ::
  "Suggest list \<Rightarrow> string \<Rightarrow> bool \<Rightarrow> (string \<Rightarrow> string \<Rightarrow> bool) \<Rightarrow> Suggest list" where
  \<comment> \<open>go-prompt's filter: an empty \<open>sub\<close> keeps every suggestion\<close>
  "filterSuggestions suggestions sub ignoreCase function =
     (if sub = [] then suggestions
      else let sub' = (if ignoreCase then ToUpper sub else sub)
           in filter (\<lambda>x. function (if ignoreCase then ToUpper (Text x) else Text x) sub')
                suggestions)"

definition FilterHasPrefix :: "Suggest list \<Rightarrow> string \<Rightarrow> bool \<Rightarrow> Suggest list" where
  "FilterHasPrefix completions sub ignoreCase =
     filterSuggestions completions sub ignoreCase HasPrefix"

definition completer :: "Document \<Rightarrow> Suggest list" where
  "completer d = (let s = [] in FilterHasPrefix s (GetWordBeforeCursor d) True)"

subsection \<open>The command tree and its flags\<close>

text \<open>
  The command tree belongs to cobra and its flags to pflag. A \<^verbatim>\<open>*pflag.Flag\<close> is an
  address in a store of flag objects, since the flag sets of a command and of its
  ancestors share them.

  A \<^verbatim>\<open>pflag.Value\<close> is an object behind an interface: \<^verbatim>\<open>String()\<close> renders it,
  \<^verbatim>\<open>Type()\<close> names its type and \<^verbatim>\<open>Set(text)\<close> changes it. What \<^verbatim>\<open>Set\<close> does is the
  value's own business: a string value stores the text, a boolean or a number parses
  it and keeps its old state when it cannot, a slice appends once it has been set. The embedding
  keeps, for a value, its rendering, its type name and, for every text, the value that
  \<^verbatim>\<open>Set\<close> leaves; the error \<^verbatim>\<open>Set\<close> returns is dropped, as \<^verbatim>\<open>findSuggestions\<close> drops it.
\<close>

codatatype Value = MkValue
  (Value_String: string)
  (Value_Type: string)
  (Value_Set: "string \<Rightarrow> Value")

primcorec scalarValue :: "string \<Rightarrow> string \<Rightarrow> Value" where
  \<comment> \<open>a value of the given type whose \<^verbatim>\<open>Set\<close> stores the text, as pflag's string value
      does\<close>
  "scalarValue ty txt = MkValue txt ty (\<lambda>v. scalarValue ty v)"

definition ParseBool :: "string \<Rightarrow> bool option" where
  \<comment> \<open>\<^verbatim>\<open>strconv.ParseBool\<close>; \<open>None\<close> is its syntax error\<close>
  "ParseBool str =
     (if str \<in> set [''1'', ''t'', ''T'', ''TRUE'', ''true'', ''True''] then Some True
      else if str \<in> set [''0'', ''f'', ''F'', ''FALSE'', ''false'', ''False''] then Some False
      else None)"

primcorec boolValue :: "bool \<Rightarrow> Value" where
  \<comment> \<open>pflag's boolean value: \<^verbatim>\<open>Set\<close> parses the text and keeps the old value when it is no
      boolean\<close>
  "boolValue b =
     MkValue (if b then ''true'' else ''false'') ''bool''
       (\<lambda>v. boolValue (case ParseBool v of Some b' \<Rightarrow> b' | None \<Rightarrow> b))"

fun joinComma :: "string list \<Rightarrow> string" where
  "joinComma [] = []"
| "joinComma [x] = x"
| "joinComma (x # xs) = x @ '','' @ joinComma xs"

primcorec stringSliceValue :: "string list \<Rightarrow> bool \<Rightarrow> Value" where
  \<comment> \<open>pflag's string slice, with its field \<^verbatim>\<open>changed\<close>: \<^verbatim>\<open>Set\<close> replaces the slice the first
      time and appends afterwards. The text is taken as one element, which is how pflag
      reads a text without comma, quote or line break.\<close>
  "stringSliceValue xs changed =
     MkValue (''['' @ joinComma xs @ '']'') ''stringSlice''
       (\<lambda>v. stringSliceValue (if changed then xs @ [v] else [v]) True)"

record Flag =
  Name :: string
  Shorthand :: string
  Usage :: string
  Value :: Value
  DefValue :: string
  Changed :: bool
  Hidden :: bool

text \<open>
  A command is a node of an immutable tree; \<open>cid\<close> names the node, and the flag sets of
  the node are kept in the state under that name. \<open>Runnable\<close> says that the command
  has a \<^verbatim>\<open>Run\<close> or \<^verbatim>\<open>RunE\<close> function, \<open>isHelpCommand\<close> that it is its parent's help
  command, and \<open>commands\<close> lists the children in the order of \<^verbatim>\<open>Commands()\<close>.
\<close>

datatype Command = Command
  (cid: nat)
  (Use: string)
  (Short: string)
  (cmdHidden: bool)
  (Deprecated: string)
  (Runnable: bool)
  (isHelpCommand: bool)
  (Annotations: "(string \<times> string) list")
  (commands: "Command list")

text \<open>
  The state: the store of flag objects with its next free address, and for every
  command the flags that \<^verbatim>\<open>Flags()\<close> looks up and those that \<^verbatim>\<open>LocalFlags().VisitAll\<close>
  and \<^verbatim>\<open>InheritedFlags().VisitAll\<close> visit, in visiting order.
\<close>

record State =
  flags :: "nat \<Rightarrow> Flag"
  nflags :: nat
  Flags :: "nat \<Rightarrow> nat list"
  LocalFlags :: "nat \<Rightarrow> nat list"
  InheritedFlags :: "nat \<Rightarrow> nat list"

definition Name_of :: "Command \<Rightarrow> string" where
  \<comment> \<open>\<^verbatim>\<open>c.Name()\<close>: the first word of \<^verbatim>\<open>Use\<close>\<close>
  "Name_of c = takeWhile (\<lambda>x. x \<noteq> CHR 0x20) (Use c)"

fun IsAvailableCommand :: "Command \<Rightarrow> bool" where
  "IsAvailableCommand (Command i u sh hid dep run hlp ann subs) =
     (if dep \<noteq> [] \<or> hid then False
      else if hlp then False
      else if run \<or> (\<exists>sub \<in> set subs. IsAvailableCommand sub) then True
      else False)"

definition HasAvailableSubCommands :: "Command \<Rightarrow> bool" where
  "HasAvailableSubCommands c = (\<exists>sub \<in> set (commands c). IsAvailableCommand sub)"

fun Lookup :: "State \<Rightarrow> nat list \<Rightarrow> string \<Rightarrow> nat option" where
  \<comment> \<open>\<^verbatim>\<open>FlagSet.Lookup\<close>: the flag of that name in the set\<close>
  "Lookup s [] name = None"
| "Lookup s (r # rs) name = (if Name (flags s r) = name then Some r else Lookup s rs name)"

definition GetBool :: "State \<Rightarrow> nat list \<Rightarrow> string \<Rightarrow> bool \<times> bool" where
  \<comment> \<open>\<^verbatim>\<open>FlagSet.GetBool\<close>: the value, and whether the error is nil. With an error (the flag
      is not defined, is not of type bool, or its text is no boolean) the value is false.\<close>
  "GetBool s fs name =
     (case Lookup s fs name of
        None \<Rightarrow> (False, False)
      | Some r \<Rightarrow>
          if Value_Type (Value (flags s r)) \<noteq> ''bool'' then (False, False)
          else (case ParseBool (Value_String (Value (flags s r))) of
                  None \<Rightarrow> (False, False)
                | Some b \<Rightarrow> (b, True)))"

definition Set_value :: "nat \<Rightarrow> string \<Rightarrow> State \<Rightarrow> State" where
  \<comment> \<open>\<^verbatim>\<open>flag.Value.Set(v)\<close> on the flag at address \<open>r\<close>\<close>
  "Set_value r v s =
     s\<lparr>flags := (flags s)(r := (flags s r)\<lparr>Value := Value_Set (Value (flags s r)) v\<rparr>)\<rparr>"

fun LookupShorthand :: "State \<Rightarrow> nat list \<Rightarrow> string \<Rightarrow> nat option" where
  \<comment> \<open>the flag of the set that uses the shorthand\<close>
  "LookupShorthand s [] sh = None"
| "LookupShorthand s (r # rs) sh =
     (if Shorthand (flags s r) = sh then Some r else LookupShorthand s rs sh)"

definition register_help :: "Command \<Rightarrow> State \<Rightarrow> State" where
  \<comment> \<open>\<^verbatim>\<open>c.Flags().BoolP("help", "h", false, usage)\<close>: a new local flag of the command\<close>
  "register_help c s =
     (let r = nflags s;
          usage = ''help for '' @ (if Name_of c = [] then ''this command'' else Name_of c);
          f = \<lparr>Name = ''help'', Shorthand = ''h'', Usage = usage,
               Value = boolValue False, DefValue = ''false'',
               Changed = False, Hidden = False\<rparr>
      in s\<lparr>flags := (flags s)(r := f),
            nflags := Suc r,
            Flags := (Flags s)(cid c := Flags s (cid c) @ [r]),
            LocalFlags := (LocalFlags s)(cid c := LocalFlags s (cid c) @ [r])\<rparr>)"

definition InitDefaultHelpFlag :: "Command \<Rightarrow> State \<Rightarrow> error + State" where
  \<comment> \<open>cobra registers the boolean flag \<^verbatim>\<open>--help\<close>, \<^verbatim>\<open>-h\<close> on a command whose flag set has no
      flag of that name; pflag panics when a flag of the set already uses \<^verbatim>\<open>-h\<close>\<close>
  "InitDefaultHelpFlag c s =
     (case Lookup s (Flags s (cid c)) ''help'' of
        Some r \<Rightarrow> Inr s
      | None \<Rightarrow>
          (case LookupShorthand s (Flags s (cid c)) ''h'' of
             Some u \<Rightarrow> Inl (ShorthandRedefined ''h'' (Name (flags s u)))
           | None \<Rightarrow> Inr (register_help c s)))"

subsection \<open>The prompt's configuration\<close>

datatype PromptOption = OptionTitle string | OptionPrefix string | OptionMaxSuggestion nat

datatype outcome = Returned | Exited int | Panicked error | Blocked

datatype event =
  InitDefaultHelpCmd
| DisableDefaultCmd
| AddCommand string string
| PersistentBoolP string string bool string
| Open string
| Tcgetattr int
| Tcsetattr int "nat option"
| Notify
| Suggested Document "Suggest list"
| PrintErr string
| PrintErrln string

record CobraPrompt =
  RootCmd :: "Command option"
  GoPromptOptions :: "PromptOption list"
  DynamicSuggestionsFunc :: "(string \<Rightarrow> Document \<Rightarrow> Suggest list) option"
  PersistFlagValues :: bool
  ShowHelpCommandAndFlags :: bool
  DisableCompletionCommand :: bool
  ShowHiddenCommands :: bool
  ShowHiddenFlags :: bool
  AddDefaultExitCommand :: bool
  OnErrorFunc :: "(string \<Rightarrow> event list \<times> outcome) option"
  InArgsParser :: "(string \<Rightarrow> string list) option"
  SuggestionFilter :: "(Suggest list \<Rightarrow> Document \<Rightarrow> Suggest list) option"

definition DynamicSuggestionsAnnotation :: string where
  "DynamicSuggestionsAnnotation = ''cobra-prompt-dynamic-suggestions''"

definition PersistFlagValuesFlag :: string where
  "PersistFlagValuesFlag = ''persist-flag-values''"

subsection \<open>Suggestion resolution\<close>

text \<open>
  \<^verbatim>\<open>Command.Find\<close> is cobra's traversal from a command along the argument list: it
  returns the command found, the remaining arguments and an error (here its message).
  It reads the names of the tree and not the values of the flags; the embedding takes
  it as a parameter.
\<close>

type_synonym Find = "Command \<Rightarrow> string list \<Rightarrow> Command \<times> string list \<times> string option"

definition resolve_command :: "Find \<Rightarrow> Command \<Rightarrow> string list \<Rightarrow> Command" where
  \<comment> \<open>\<^verbatim>\<open>if found, _, err := command.Find(args); err == nil { command = found }\<close>\<close>
  "resolve_command Find command args =
     (case Find command args of
        (found, _, None) \<Rightarrow> found
      | (found, _, Some err) \<Rightarrow> command)"

definition addFlags ::
  "CobraPrompt \<Rightarrow> Document \<Rightarrow> bool \<Rightarrow> nat \<Rightarrow> Suggest list \<times> State \<Rightarrow> Suggest list \<times> State" where
  \<comment> \<open>the closure \<^verbatim>\<open>addFlags\<close>, on the flag at address \<open>r\<close>; the pair is \<^verbatim>\<open>suggestions\<close>
      and the state\<close>
  "addFlags co d persistFlagValues r acc =
     (let (suggestions, s) = acc;
          s' = (if Changed (flags s r) \<and> \<not> persistFlagValues
                then Set_value r (DefValue (flags s r)) s else s);
          flag = flags s' r
      in if Hidden flag \<and> \<not> ShowHiddenFlags co then (suggestions, s')
         else if HasPrefix (GetWordBeforeCursor d) ''--''
         then (suggestions @ [\<lparr>Text = ''--'' @ Name flag, Description = Usage flag\<rparr>], s')
         else if HasPrefix (GetWordBeforeCursor d) ''-'' \<and> Shorthand flag \<noteq> []
         then (suggestions @ [\<lparr>Text = ''-'' @ Shorthand flag, Description = Usage flag\<rparr>], s')
         else (suggestions, s'))"

fun VisitAll ::
  "(nat \<Rightarrow> 'a \<Rightarrow> 'a) \<Rightarrow> nat list \<Rightarrow> 'a \<Rightarrow> 'a" where
  "VisitAll fn [] acc = acc"
| "VisitAll fn (r # rs) acc = VisitAll fn rs (fn r acc)"

fun addCommands ::
  "CobraPrompt \<Rightarrow> Command list \<Rightarrow> Suggest list \<times> State \<Rightarrow> error + Suggest list \<times> State" where
  \<comment> \<open>the loop over \<^verbatim>\<open>command.Commands()\<close>\<close>
  "addCommands co [] acc = Inr acc"
| "addCommands co (c # cs) acc =
     (let (suggestions, s) = acc;
          suggestions' = (if \<not> cmdHidden c \<and> \<not> ShowHiddenCommands co
                          then suggestions @ [\<lparr>Text = Name_of c, Description = Short c\<rparr>]
                          else suggestions)
      in if ShowHelpCommandAndFlags co
         then (case InitDefaultHelpFlag c s of
                 Inl err \<Rightarrow> Inl err
               | Inr s' \<Rightarrow> addCommands co cs (suggestions', s'))
         else addCommands co cs (suggestions', s))"

definition annotation_of :: "Command \<Rightarrow> string \<Rightarrow> string" where
  \<comment> \<open>\<^verbatim>\<open>command.Annotations[key]\<close>: the empty string for a key the map does not have\<close>
  "annotation_of c key = (case map_of (Annotations c) key of None \<Rightarrow> [] | Some v \<Rightarrow> v)"

definition suggestions_of ::
  "CobraPrompt \<Rightarrow> Document \<Rightarrow> Command \<Rightarrow> State \<Rightarrow> error + Suggest list \<times> State" where
  \<comment> \<open>\<^verbatim>\<open>findSuggestions\<close> from the resolved command on, up to the final filter\<close>
  "suggestions_of co d command s =
     (let persistFlagValues = fst (GetBool s (Flags s (cid command)) PersistFlagValuesFlag);
          a1 = VisitAll (addFlags co d persistFlagValues) (LocalFlags s (cid command)) ([], s);
          a2 = VisitAll (addFlags co d persistFlagValues)
                 (InheritedFlags (snd a1) (cid command)) a1;
          annotation = annotation_of command DynamicSuggestionsAnnotation
      in case (if HasAvailableSubCommands command
               then addCommands co (commands command) a2 else Inr a2) of
           Inl err \<Rightarrow> Inl err
         | Inr a3 \<Rightarrow>
             (case DynamicSuggestionsFunc co of
                Some f \<Rightarrow>
                  if annotation \<noteq> [] then Inr (fst a3 @ f annotation d, snd a3) else Inr a3
              | None \<Rightarrow> Inr a3))"

definition findSuggestions ::
  "Find \<Rightarrow> CobraPrompt \<Rightarrow> Document \<Rightarrow> State \<Rightarrow> error + Suggest list \<times> State" where
  \<comment> \<open>a nil \<^verbatim>\<open>RootCmd\<close> is dereferenced by \<^verbatim>\<open>Find\<close>\<close>
  "findSuggestions Find co d s =
     (case RootCmd co of
        None \<Rightarrow> Inl NilPointer
      | Some root \<Rightarrow>
          let args = Fields (CurrentLine d);
              command = resolve_command Find root args
          in case suggestions_of co d command s of
               Inl err \<Rightarrow> Inl err
             | Inr (suggestions, s') \<Rightarrow>
                 (case SuggestionFilter co of
                    Some f \<Rightarrow> Inr (f suggestions d, s')
                  | None \<Rightarrow>
                      Inr (FilterHasPrefix suggestions (GetWordBeforeCursor d) True, s')))"

subsection \<open>Running the prompt\<close>

text \<open>
  What the package does to the terminal, to the command tree and to the process is
  recorded as a list of events. The environment gives the results of the system calls,
  the inputs the line renderer reads until its end of input, and whether an interrupt
  signal arrives while a command waits for one. The terminal attributes are an opaque
  snapshot, a number here. The package variables \<^verbatim>\<open>fd\<close> and \<^verbatim>\<open>originalTermios\<close> are the
  record \<open>Globals\<close>.
\<close>

datatype Context = Background | WithCancel Context

datatype input = Keystroke Document | Enter string

record Globals =
  fd :: int
  originalTermios :: "nat option"

record Env =
  open_tty :: "error + int"
  tcgetattr :: "int \<Rightarrow> error + nat"
  tcsetattr :: "int \<Rightarrow> nat option \<Rightarrow> error option"
  interrupt :: bool
  inputs :: "input list"

definition Executor :: "Env \<Rightarrow> Globals \<Rightarrow> string \<Rightarrow> event list \<times> outcome" where
  \<comment> \<open>on the line \<^verbatim>\<open>test\<close> it waits until the interrupt signal cancels the context: the
      long task is an endless loop and never cancels it\<close>
  "Executor env g input =
     (case tcsetattr env (fd g) (originalTermios g) of
        Some err \<Rightarrow> ([Tcsetattr (fd g) (originalTermios g)], Panicked err)
      | None \<Rightarrow>
          if input = ''test''
          then ([Tcsetattr (fd g) (originalTermios g), Notify],
                if interrupt env then Returned else Blocked)
          else ([Tcsetattr (fd g) (originalTermios g)], Returned))"

definition parseArgs :: "CobraPrompt \<Rightarrow> string \<Rightarrow> error + string list" where
  "parseArgs co inp =
     (case InArgsParser co of
        Some f \<Rightarrow> Inr (f inp)
      | None \<Rightarrow> parseArgsWithQuotes inp)"

definition prepare :: "CobraPrompt \<Rightarrow> event list" where
  "prepare co =
     (if ShowHelpCommandAndFlags co then [InitDefaultHelpCmd] else [])
     @ (if DisableCompletionCommand co then [DisableDefaultCmd] else [])
     @ (if AddDefaultExitCommand co then [AddCommand ''exit'' ''Exit prompt''] else [])
     @ (if PersistFlagValues co
        then [PersistentBoolP PersistFlagValuesFlag [] False ''Persist last given value for flags'']
        else [])"

fun prompt_Run ::
  "(string \<Rightarrow> event list \<times> outcome) \<Rightarrow> (Document \<Rightarrow> Suggest list) \<Rightarrow> input list
   \<Rightarrow> event list \<times> outcome" where
  \<comment> \<open>the renderer's loop: the completer on every keystroke, the executor on every line\<close>
  "prompt_Run executor compl [] = ([], Returned)"
| "prompt_Run executor compl (Keystroke d # rest) =
     (let (evs, out) = prompt_Run executor compl rest
      in (Suggested d (compl d) # evs, out))"
| "prompt_Run executor compl (Enter line # rest) =
     (case executor line of
        (evs, Returned) \<Rightarrow>
          (let (evs', out) = prompt_Run executor compl rest in (evs @ evs', out))
      | (evs, out) \<Rightarrow> (evs, out))"

definition RunContext :: "Env \<Rightarrow> CobraPrompt \<Rightarrow> Context option \<Rightarrow> event list \<times> outcome" where
  "RunContext env co ctx =
     (if RootCmd co = None
      then ([], Panicked (PanicMsg ''RootCmd is not set. Please set RootCmd''))
      else
        let evs = prepare co @ [Open ''/dev/tty'']
        in case open_tty env of
             Inl err \<Rightarrow> (evs, Panicked err)
           | Inr fd' \<Rightarrow>
               (case tcgetattr env fd' of
                  Inl err \<Rightarrow> (evs @ [Tcgetattr fd'], Panicked err)
                | Inr t \<Rightarrow>
                    let g = \<lparr>fd = fd', originalTermios = Some t\<rparr>;
                        (evs', out) = prompt_Run (Executor env g) completer (inputs env)
                    in (evs @ [Tcgetattr fd'] @ evs', out)))"

definition Run :: "Env \<Rightarrow> CobraPrompt \<Rightarrow> event list \<times> outcome" where
  "Run env co = RunContext env co None"

subsection \<open>Who calls whom\<close>

text \<open>
  The functions of the package, and for each the functions of the package its body
  calls or hands to a library as a callback: \<^verbatim>\<open>RunContext\<close> gives \<^verbatim>\<open>Executor\<close> and
  \<^verbatim>\<open>completer\<close> to \<^verbatim>\<open>prompt.New\<close>. The libraries call nothing else of the package.
\<close>

datatype func =
  F_Run | F_RunContext | F_Executor | F_completer | F_parseArgsWithQuotes | F_parseArgs
| F_prepare | F_findSuggestions

fun calls :: "func \<Rightarrow> func list" where
  "calls F_Run = [F_RunContext]"
| "calls F_RunContext = [F_prepare, F_Executor, F_completer]"
| "calls F_Executor = []"
| "calls F_completer = []"
| "calls F_parseArgsWithQuotes = []"
| "calls F_parseArgs = [F_parseArgsWithQuotes]"
| "calls F_prepare = []"
| "calls F_findSuggestions = []"

inductive reaches :: "func \<Rightarrow> func \<Rightarrow> bool" where
  here: "reaches f f"
| step: "reaches f g \<Longrightarrow> h \<in> set (calls g) \<Longrightarrow> reaches f h"

subsection \<open>The example application\<close>

text \<open>
  The example configures two prompts over its root command. The root command and the
  function \<^verbatim>\<open>GetFoodDynamic\<close> belong to the example's command package and are parameters.
\<close>

definition advanced_OnErrorFunc :: "string \<Rightarrow> event list \<times> outcome" where
  "advanced_OnErrorFunc err =
     (if Contains err ''unknown command'' then ([PrintErrln err], Returned)
      else ([PrintErr err], Exited 1))"

definition advancedPrompt :: "Command \<Rightarrow> (string \<Rightarrow> Suggest list option) \<Rightarrow> CobraPrompt" where
  "advancedPrompt rootCmd GetFoodDynamic =
     \<lparr>RootCmd = Some rootCmd,
      GoPromptOptions =
        [OptionTitle ''cobra-prompt'', OptionPrefix ''>(^!^)> '', OptionMaxSuggestion 10],
      DynamicSuggestionsFunc =
        Some (\<lambda>annotationValue document.
                case GetFoodDynamic annotationValue of
                  Some suggestions \<Rightarrow> suggestions
                | None \<Rightarrow> []),
      PersistFlagValues = True,
      ShowHelpCommandAndFlags = True,
      DisableCompletionCommand = True,
      ShowHiddenCommands = False,
      ShowHiddenFlags = False,
      AddDefaultExitCommand = True,
      OnErrorFunc = Some advanced_OnErrorFunc,
      InArgsParser = None,
      SuggestionFilter = None\<rparr>"

definition simplePrompt :: "Command \<Rightarrow> CobraPrompt" where
  "simplePrompt rootCmd =
     \<lparr>RootCmd = Some rootCmd,
      GoPromptOptions = [],
      DynamicSuggestionsFunc = None,
      PersistFlagValues = False,
      ShowHelpCommandAndFlags = False,
      DisableCompletionCommand = True,
      ShowHiddenCommands = False,
      ShowHiddenFlags = False,
      AddDefaultExitCommand = True,
      OnErrorFunc = None,
      InArgsParser = None,
      SuggestionFilter = None\<rparr>"

subsection \<open>States of the flag store\<close>


definition reset_flag :: "Flag \<Rightarrow> Flag" where
  "reset_flag f = f\<lparr>Value := Value_Set (Value f) (DefValue f)\<rparr>"

definition reset_in :: "bool \<Rightarrow> nat set \<Rightarrow> State \<Rightarrow> State" where
  "reset_in P R s =
     s\<lparr>flags := (\<lambda>r. if r \<in> R \<and> Changed (flags s r) \<and> \<not> P
                     then reset_flag (flags s r) else flags s r)\<rparr>"

definition has_help :: "State \<Rightarrow> nat \<Rightarrow> bool" where
  "has_help s k = (Lookup s (Flags s k) ''help'' \<noteq> None)"

definition with_help :: "Command \<Rightarrow> State \<Rightarrow> State" where
  "with_help c s = (if has_help s (cid c) then s else register_help c s)"





text \<open>
  \<open>same_names\<close> relates two states whose flag sets are the same and whose flags have
  the same names and shorthands.
\<close>

definition same_names :: "State \<Rightarrow> State \<Rightarrow> bool" where
  "same_names s s' =
     (Flags s' = Flags s
      \<and> (\<forall>r. Name (flags s' r) = Name (flags s r) \<and> Shorthand (flags s' r) = Shorthand (flags s r)))"


definition shorthand_free :: "State \<Rightarrow> nat \<Rightarrow> bool" where
  "shorthand_free s k = (has_help s k \<or> LookupShorthand s (Flags s k) ''h'' = None)"

definition help_registrable :: "CobraPrompt \<Rightarrow> Command \<Rightarrow> State \<Rightarrow> bool" where
  "help_registrable co c s =
     (ShowHelpCommandAndFlags co \<and> HasAvailableSubCommands c \<longrightarrow>
        list_all (\<lambda>child. shorthand_free s (cid child)) (commands c))"

subsection \<open>Lines made of words and quoted spans\<close>








subsection \<open>Concrete inputs\<close>

definition flag_verbose :: Flag where
  "flag_verbose =
     \<lparr>Name = ''verbose'', Shorthand = ''v'', Usage = ''verbose output'',
      Value = boolValue True, DefValue = ''false'', Changed = True,
      Hidden = False\<rparr>"

definition flag_tags :: Flag where
  \<comment> \<open>a string slice flag that has been set to the one element \<^verbatim>\<open>a\<close>\<close>
  "flag_tags =
     \<lparr>Name = ''tags'', Shorthand = ''t'', Usage = ''tags'',
      Value = stringSliceValue [''a''] True, DefValue = ''[]'', Changed = True,
      Hidden = False\<rparr>"

definition flag_host :: Flag where
  \<comment> \<open>a flag that uses the shorthand \<^verbatim>\<open>-h\<close>\<close>
  "flag_host =
     \<lparr>Name = ''host'', Shorthand = ''h'', Usage = ''host to connect to'',
      Value = scalarValue ''string'' ''localhost'', DefValue = ''localhost'', Changed = False,
      Hidden = False\<rparr>"

definition cmd_foo :: Command where
  "cmd_foo = Command 1 ''foo'' ''Foo command'' False [] True False [] []"

definition root0 :: Command where
  "root0 = Command 0 ''app'' ''App'' False [] False False [] [cmd_foo]"

definition state0 :: State where
  "state0 =
     \<lparr>flags = (\<lambda>_. flag_verbose), nflags = 1, Flags = (\<lambda>_. [])(0 := [0]),
      LocalFlags = (\<lambda>_. [])(0 := [0]), InheritedFlags = (\<lambda>_. [])\<rparr>"

definition state_tags :: State where
  \<comment> \<open>the root has the local flag \<^verbatim>\<open>--tags\<close>\<close>
  "state_tags =
     \<lparr>flags = (\<lambda>_. flag_tags), nflags = 1, Flags = (\<lambda>_. [])(0 := [0]),
      LocalFlags = (\<lambda>_. [])(0 := [0]), InheritedFlags = (\<lambda>_. [])\<rparr>"

definition state_host :: State where
  \<comment> \<open>the child \<^verbatim>\<open>foo\<close> has the local flag \<^verbatim>\<open>--host\<close>, \<^verbatim>\<open>-h\<close>\<close>
  "state_host =
     \<lparr>flags = (\<lambda>_. flag_host), nflags = 1, Flags = (\<lambda>_. [])(1 := [0]),
      LocalFlags = (\<lambda>_. [])(1 := [0]), InheritedFlags = (\<lambda>_. [])\<rparr>"

definition Find_here :: Find where
  \<comment> \<open>what \<^verbatim>\<open>Find\<close> returns for an empty argument list: the command itself and no error\<close>
  "Find_here c args = (c, args, None)"

definition doc0 :: Document where
  "doc0 = \<lparr>DocText = [], cursorPosition = 0\<rparr>"

definition Find_unknown :: Find where
  \<comment> \<open>what \<^verbatim>\<open>Find\<close> returns at a root none of whose children matches the first argument\<close>
  "Find_unknown c args = (c, args, Some ''unknown command'')"

definition doc1 :: Document where
  "doc1 = \<lparr>DocText = ''nosuch'', cursorPosition = 6\<rparr>"

definition env0 :: Env where
  "env0 =
     \<lparr>open_tty = Inr 3, tcgetattr = (\<lambda>_. Inr 7), tcsetattr = (\<lambda>_ _. None), interrupt = False,
      inputs = [Keystroke \<lparr>DocText = ''fo'', cursorPosition = 2\<rparr>, Enter ''foo'']\<rparr>"

definition globals0 :: Globals where
  "globals0 = \<lparr>fd = 3, originalTermios = Some 7\<rparr>"

section \<open>Properties\<close>

subsection \<open>Evaluating the concrete inputs\<close>

lemmas tokenizer_defs =
  parseArgsWithQuotes_def match_here_def match_quoted_def match_nonspace_def quote_def
  re_space_def HasPrefix_def HasSuffix_def slice_def

lemmas resolution_defs =
  findSuggestions_def suggestions_of_def resolve_command_def Find_here_def Find_unknown_def
  simplePrompt_def state0_def state_tags_def state_host_def root0_def cmd_foo_def
  flag_verbose_def flag_tags_def flag_host_def doc0_def doc1_def
  CurrentLine_def CurrentLineBeforeCursor_def CurrentLineAfterCursor_def TextBeforeCursor_def
  TextAfterCursor_def GetWordBeforeCursor_def GetBool_def PersistFlagValuesFlag_def
  addFlags_def Set_value_def HasPrefix_def HasAvailableSubCommands_def annotation_of_def
  DynamicSuggestionsAnnotation_def FilterHasPrefix_def filterSuggestions_def Name_of_def
  InitDefaultHelpFlag_def register_help_def isSpace_def ParseBool_def

subsection \<open>The tokenizer on lines of words and quoted spans\<close>

















subsection \<open>The state after a resolution\<close>




lemma addFlags_state:
  "snd (addFlags co d P r (sg, s)) =
   (if Changed (flags s r) \<and> \<not> P then Set_value r (DefValue (flags s r)) s else s)"
  by (simp add: addFlags_def Let_def)



lemma reset_in_fields [simp]:
  "nflags (reset_in P R s) = nflags s"
  "Flags (reset_in P R s) = Flags s"
  "LocalFlags (reset_in P R s) = LocalFlags s"
  "InheritedFlags (reset_in P R s) = InheritedFlags s"
  by (simp_all add: reset_in_def)


lemma InitDefaultHelpFlag_ok:
  "shorthand_free s (cid c) \<Longrightarrow> InitDefaultHelpFlag c s = Inr (with_help c s)"
  by (auto simp: InitDefaultHelpFlag_def with_help_def has_help_def shorthand_free_def
      split: option.splits)


lemma Lookup_None':
  "Lookup s rs n = None \<longleftrightarrow> (\<forall>r \<in> set rs. Name (flags s r) \<noteq> n)"
  by (induction rs) auto

lemma LookupShorthand_None:
  "LookupShorthand s rs sh = None \<longleftrightarrow> (\<forall>r \<in> set rs. Shorthand (flags s r) \<noteq> sh)"
  by (induction rs) auto

lemma shorthand_free_iff:
  "shorthand_free s k \<longleftrightarrow>
   (\<exists>r \<in> set (Flags s k). Name (flags s r) = ''help'')
   \<or> (\<forall>r \<in> set (Flags s k). Shorthand (flags s r) \<noteq> ''h'')"
  by (auto simp: shorthand_free_def has_help_def Lookup_None' LookupShorthand_None)

lemma shorthand_free_with_help:
  "shorthand_free s k \<Longrightarrow> shorthand_free (with_help c s) k"
proof (cases "has_help s (cid c)")
  case True
  assume "shorthand_free s k"
  with True show ?thesis by (simp add: with_help_def)
next
  case False
  assume a: "shorthand_free s k"
  let ?s' = "register_help c s"
  have f: "flags ?s' = (flags s)(nflags s := flags ?s' (nflags s))"
    and n: "Name (flags ?s' (nflags s)) = ''help''"
    and F: "Flags ?s' k = (if k = cid c then Flags s k @ [nflags s] else Flags s k)"
    by (simp_all add: register_help_def Let_def)
  show ?thesis
  proof (cases "nflags s \<in> set (Flags ?s' k)")
    case True
    with n have "shorthand_free ?s' k" unfolding shorthand_free_iff by blast
    with False show ?thesis by (simp add: with_help_def)
  next
    case nin: False
    then have same: "Flags ?s' k = Flags s k" using F by (auto split: if_splits)
    have "\<And>r. r \<in> set (Flags s k) \<Longrightarrow> flags ?s' r = flags s r"
      using nin same f by (metis fun_upd_other)
    with a same have "shorthand_free ?s' k" unfolding shorthand_free_iff by simp
    with False show ?thesis by (simp add: with_help_def)
  qed
qed

lemma addCommands_ok:
  "(\<And>c. c \<in> set cs \<Longrightarrow> shorthand_free s (cid c)) \<Longrightarrow> \<exists>acc. addCommands co cs (sg, s) = Inr acc"
proof (induction cs arbitrary: sg s)
  case Nil
  then show ?case by simp
next
  case (Cons c cs)
  show ?case
  proof (cases "ShowHelpCommandAndFlags co")
    case True
    have i: "InitDefaultHelpFlag c s = Inr (with_help c s)"
      using Cons.prems by (intro InitDefaultHelpFlag_ok) simp
    have "\<And>c'. c' \<in> set cs \<Longrightarrow> shorthand_free (with_help c s) (cid c')"
      using Cons.prems by (intro shorthand_free_with_help) simp
    from Cons.IH [OF this] True i show ?thesis by (simp add: Let_def)
  next
    case False
    have "\<And>c'. c' \<in> set cs \<Longrightarrow> shorthand_free s (cid c')" using Cons.prems by simp
    from Cons.IH [OF this] False show ?thesis by (simp add: Let_def)
  qed
qed

lemma addCommands_no_help:
  "\<not> ShowHelpCommandAndFlags co \<Longrightarrow> \<exists>acc. addCommands co cs (sg, s) = Inr acc"
  by (induction cs arbitrary: sg s) (simp_all add: Let_def)

lemma addFlags_same_names: "same_names s (snd (addFlags co d P r (sg, s)))"
  by (simp add: addFlags_state same_names_def Set_value_def)

lemma same_names_trans: "same_names s s' \<Longrightarrow> same_names s' s'' \<Longrightarrow> same_names s s''"
  by (simp add: same_names_def)

lemma VisitAll_same_names: "same_names (snd acc) (snd (VisitAll (addFlags co d P) rs acc))"
proof (induction rs arbitrary: acc)
  case Nil
  then show ?case by (simp add: same_names_def)
next
  case (Cons r rs)
  have "same_names (snd acc) (snd (addFlags co d P r acc))"
    using addFlags_same_names [of "snd acc" co d P r "fst acc"] by simp
  then show ?case using Cons.IH [of "addFlags co d P r acc"] by (auto intro: same_names_trans)
qed

lemma same_names_shorthand_free:
  "same_names s s' \<Longrightarrow> shorthand_free s' k = shorthand_free s k"
  by (simp add: same_names_def shorthand_free_iff)


lemma suggestions_of_ok:
  assumes "help_registrable co c s"
  shows "\<exists>acc. suggestions_of co d c s = Inr acc"
proof -
  let ?P = "fst (GetBool s (Flags s (cid c)) PersistFlagValuesFlag)"
  let ?a1 = "VisitAll (addFlags co d ?P) (LocalFlags s (cid c)) ([], s)"
  let ?a2 = "VisitAll (addFlags co d ?P) (InheritedFlags (snd ?a1) (cid c)) ?a1"
  have "\<exists>a3. (if HasAvailableSubCommands c then addCommands co (commands c) ?a2 else Inr ?a2)
          = Inr a3"
  proof (cases "HasAvailableSubCommands c \<and> ShowHelpCommandAndFlags co")
    case True
    with assms have ok: "\<And>ch. ch \<in> set (commands c) \<Longrightarrow> shorthand_free s (cid ch)"
      by (simp add: help_registrable_def list_all_iff)
    have "same_names s (snd ?a2)"
      using VisitAll_same_names [of "([], s)" co d ?P "LocalFlags s (cid c)"]
        VisitAll_same_names [of ?a1 co d ?P "InheritedFlags (snd ?a1) (cid c)"]
      by (auto intro: same_names_trans)
    with ok have "\<And>ch. ch \<in> set (commands c) \<Longrightarrow> shorthand_free (snd ?a2) (cid ch)"
      by (simp add: same_names_shorthand_free)
    from addCommands_ok [OF this, of "commands c" co "fst ?a2"] True show ?thesis by simp
  next
    case False
    then show ?thesis
      using addCommands_no_help [of co "commands c" "fst ?a2" "snd ?a2"] by auto
  qed
  then show ?thesis
    by (auto simp: suggestions_of_def Let_def split: option.splits)
qed



lemma findSuggestions_ok:
  assumes "RootCmd co = Some root"
    and "help_registrable co (resolve_command Find root (Fields (CurrentLine d))) s"
  shows "\<exists>sg s'. findSuggestions Find co d s = Inr (sg, s')"
  using assms(1) suggestions_of_ok [OF assms(2), of d]
  by (auto simp: findSuggestions_def Let_def split: option.splits)










lemma Lookup_None_old:
  "Lookup s rs n = None \<longleftrightarrow> (\<forall>r \<in> set rs. Name (flags s r) \<noteq> n)"
  by (induction rs) auto






















lemma reset_flag_fields [simp]:
  "Changed (reset_flag f) = Changed f"
  "DefValue (reset_flag f) = DefValue f"
  "Name (reset_flag f) = Name f"
  by (simp_all add: reset_flag_def)




subsection \<open>The events of the prompt loop\<close>

lemma completer_empty: "completer d = []"
  by (simp add: completer_def FilterHasPrefix_def filterSuggestions_def)

lemma reaches_Run: "reaches f g \<Longrightarrow> f = F_Run \<Longrightarrow>
   g \<in> {F_Run, F_RunContext, F_prepare, F_Executor, F_completer}"
  by (induction rule: reaches.induct) auto

lemma prompt_Run_events:
  "ev \<in> set (fst (prompt_Run ex compl ins)) \<Longrightarrow>
   (\<exists>l. ev \<in> set (fst (ex l))) \<or> (\<exists>d. ev = Suggested d (compl d))"
proof (induction ex compl ins rule: prompt_Run.induct)
  case (1 executor compl)
  then show ?case by simp
next
  case (2 executor compl d rest)
  then show ?case by (auto split: prod.splits)
next
  case (3 executor compl line rest)
  obtain evs out where ex: "executor line = (evs, out)" by (cases "executor line")
  show ?case
  proof (cases "out = Returned")
    case True
    obtain evs' out' where r: "prompt_Run executor compl rest = (evs', out')"
      by (cases "prompt_Run executor compl rest")
    from "3.prems" ex True r have "ev \<in> set evs \<or> ev \<in> set evs'" by simp
    then show ?thesis
    proof
      assume "ev \<in> set evs"
      then have "ev \<in> set (fst (executor line))" using ex by simp
      then show ?thesis by blast
    next
      assume "ev \<in> set evs'"
      then have "ev \<in> set (fst (prompt_Run executor compl rest))" using r by simp
      with "3.IH" ex True show ?thesis by simp
    qed
  next
    case False
    with "3.prems" ex have "ev \<in> set evs" by (cases out) simp_all
    then have "ev \<in> set (fst (executor line))" using ex by simp
    then show ?thesis by blast
  qed
qed

lemma eq_fst_in: "f = (x, y) \<Longrightarrow> e \<in> set x \<Longrightarrow> e \<in> set (fst f)"
  by simp

lemma Executor_no_Suggested: "Suggested d sg \<notin> set (fst (Executor env g l))"
  by (auto simp: Executor_def split: option.splits)

lemma prepare_no_Suggested: "Suggested d sg \<notin> set (prepare co)"
  by (auto simp: prepare_def)

lemma FilterHasPrefix_prefix:
  "x \<in> set (FilterHasPrefix sg w True) \<Longrightarrow> HasPrefix (ToUpper (Text x)) (ToUpper w)"
  by (auto simp: FilterHasPrefix_def filterSuggestions_def HasPrefix_def ToUpper_def
      split: if_splits)

subsection \<open>The claims\<close>




text \<open>
  C2: the completer that \<^verbatim>\<open>RunContext\<close> gives to the line renderer returns the empty
  list for every document; \<^verbatim>\<open>findSuggestions\<close> is not reachable from \<^verbatim>\<open>Run\<close> in the call
  graph of the package; and every suggestion list the prompt loop computes is empty.
\<close>

theorem completer_returns_no_suggestions:
  "completer d = []
   \<and> \<not> reaches F_Run F_findSuggestions
   \<and> (Suggested d' sg \<in> set (fst (RunContext env co ctx)) \<longrightarrow> sg = [])"
proof (intro conjI impI)
  show "completer d = []" by (rule completer_empty)
  show "\<not> reaches F_Run F_findSuggestions"
    using reaches_Run [of F_Run F_findSuggestions] by auto
  assume a: "Suggested d' sg \<in> set (fst (RunContext env co ctx))"
  have p: "Suggested d' sg \<in> set (fst (prompt_Run (Executor env g) completer ins)) \<Longrightarrow> sg = []"
    for g ins
    using prompt_Run_events [of "Suggested d' sg" "Executor env g" completer ins]
    by (auto simp: Executor_no_Suggested completer_empty)
  from a show "sg = []"
    by (auto simp: RunContext_def Let_def prepare_no_Suggested
        split: if_splits sum.splits prod.splits dest: p [OF eq_fst_in])
qed

theorem completer_returns_no_suggestions_witness:
  "Suggested \<lparr>DocText = ''fo'', cursorPosition = 2\<rparr> (completer \<lparr>DocText = ''fo'', cursorPosition = 2\<rparr>)
     \<in> set (fst (RunContext env0 (simplePrompt root0) None))
   \<and> completer \<lparr>DocText = ''fo'', cursorPosition = 2\<rparr> = []
   \<and> \<not> reaches F_Run F_findSuggestions"
proof -
  have "Suggested \<lparr>DocText = ''fo'', cursorPosition = 2\<rparr>
          (completer \<lparr>DocText = ''fo'', cursorPosition = 2\<rparr>)
        \<in> set (fst (RunContext env0 (simplePrompt root0) None))"
    by (simp add: RunContext_def env0_def simplePrompt_def prepare_def Executor_def)
  then show ?thesis
    using completer_returns_no_suggestions
      [of "\<lparr>DocText = ''fo'', cursorPosition = 2\<rparr>" "\<lparr>DocText = ''fo'', cursorPosition = 2\<rparr>"
          "completer \<lparr>DocText = ''fo'', cursorPosition = 2\<rparr>" env0 "simplePrompt root0" None]
    by blast
qed

text \<open>
  C3 fails on the code: the loop over the children adds a child only when the child is
  not hidden and the toggle \<^verbatim>\<open>ShowHiddenCommands\<close> is off. The root has the child
  \<^verbatim>\<open>foo\<close>, which is not hidden; with the toggle on, the resolution of the empty line
  suggests nothing, and with the toggle off it suggests \<^verbatim>\<open>foo\<close>.
\<close>

theorem findSuggestions_ShowHiddenCommands_hides_all:
  "map_sum id fst
     (findSuggestions Find_here ((simplePrompt root0)\<lparr>ShowHiddenCommands := True\<rparr>) doc0 state0)
   = Inr []
   \<and> map_sum id fst (findSuggestions Find_here (simplePrompt root0) doc0 state0)
     = Inr [\<lparr>Text = ''foo'', Description = ''Foo command''\<rparr>]
   \<and> \<not> cmdHidden cmd_foo \<and> cmd_foo \<in> set (commands root0)"
  by (simp add: resolution_defs)

text \<open>
  C4: with no custom suggestion filter, the text of every suggestion that the
  resolution returns starts with the word before the cursor, both in upper case; and
  with a root command, on a state where the help flags can be registered, the
  resolution returns a list.
\<close>

theorem findSuggestions_default_filter_prefix:
  assumes "SuggestionFilter co = None"
  shows "(\<forall>sg s'. findSuggestions Find co d s = Inr (sg, s') \<longrightarrow>
            (\<forall>x \<in> set sg. HasPrefix (ToUpper (Text x)) (ToUpper (GetWordBeforeCursor d))))
     \<and> (RootCmd co = Some root
          \<and> help_registrable co (resolve_command Find root (Fields (CurrentLine d))) s \<longrightarrow>
        (\<exists>sg s'. findSuggestions Find co d s = Inr (sg, s')))"
proof (intro conjI allI impI)
  fix sg s'
  assume "findSuggestions Find co d s = Inr (sg, s')"
  with assms show "\<forall>x \<in> set sg. HasPrefix (ToUpper (Text x)) (ToUpper (GetWordBeforeCursor d))"
    by (auto simp: findSuggestions_def Let_def split: option.splits sum.splits
        dest: FilterHasPrefix_prefix)
next
  assume "RootCmd co = Some root
    \<and> help_registrable co (resolve_command Find root (Fields (CurrentLine d))) s"
  then show "\<exists>sg s'. findSuggestions Find co d s = Inr (sg, s')"
    using findSuggestions_ok [of co root Find d s] by blast
qed

theorem findSuggestions_default_filter_prefix_witness:
  "RootCmd (simplePrompt root0) = Some root0 \<and> SuggestionFilter (simplePrompt root0) = None
   \<and> help_registrable (simplePrompt root0) root0 state0
   \<and> (\<exists>sg s'. findSuggestions Find_here (simplePrompt root0)
                  \<lparr>DocText = ''fo'', cursorPosition = 2\<rparr> state0 = Inr (sg, s')
         \<and> list_all (\<lambda>x. HasPrefix (ToUpper (Text x)) ''FO'') sg)"
proof -
  have r: "RootCmd (simplePrompt root0) = Some root0"
    and f: "SuggestionFilter (simplePrompt root0) = None"
    by (simp_all add: simplePrompt_def)
  have h: "help_registrable (simplePrompt root0) root0 state0"
    by (simp add: help_registrable_def simplePrompt_def)
  have c: "resolve_command Find_here root0
      (Fields (CurrentLine \<lparr>DocText = ''fo'', cursorPosition = 2\<rparr>)) = root0"
    by (simp add: resolve_command_def Find_here_def)
  have g: "GetWordBeforeCursor \<lparr>DocText = ''fo'', cursorPosition = 2\<rparr> = ''fo''"
    by (simp add: GetWordBeforeCursor_def TextBeforeCursor_def)
  have w: "ToUpper (GetWordBeforeCursor \<lparr>DocText = ''fo'', cursorPosition = 2\<rparr>) = ''FO''"
    unfolding g by code_simp
  show ?thesis
    using r f h findSuggestions_default_filter_prefix
      [OF f, of Find_here "\<lparr>DocText = ''fo'', cursorPosition = 2\<rparr>" state0 root0]
    unfolding w c list_all_iff by blast
qed

text \<open>
  C5 fails on the code: \<^verbatim>\<open>Executor\<close> restores the terminal attributes and returns. On
  the line \<^verbatim>\<open>foo\<close>, which names a command of the tree, the only event is the restoring
  of the attributes; the line is not tokenized (the tokenizer would give the argument
  \<^verbatim>\<open>foo\<close>) and nothing is dispatched to the command tree.
\<close>

theorem Executor_does_not_dispatch:
  "Executor env0 globals0 ''foo'' = ([Tcsetattr 3 (Some 7)], Returned)
   \<and> parseArgs (simplePrompt root0) ''foo'' = Inr [''foo'']"
  by (simp add: Executor_def env0_def globals0_def parseArgs_def simplePrompt_def
      tokenizer_defs)

text \<open>
  C6 fails on the code: the line \<^verbatim>\<open>nosuch\<close> matches no command of the tree, and
  neither \<^verbatim>\<open>Executor\<close> nor the whole run of the prompt on that line reports an error or
  ends the process, whether no error handler is configured or the handler of the
  example application is.
\<close>

theorem Executor_reports_no_error:
  "Executor env0 globals0 ''nosuch'' = ([Tcsetattr 3 (Some 7)], Returned)
   \<and> Run (env0\<lparr>inputs := [Enter ''nosuch'']\<rparr>) (simplePrompt root0)
       = ([DisableDefaultCmd, AddCommand ''exit'' ''Exit prompt'', Open ''/dev/tty'',
           Tcgetattr 3, Tcsetattr 3 (Some 7)], Returned)
   \<and> OnErrorFunc (simplePrompt root0) = None
   \<and> Run (env0\<lparr>inputs := [Enter ''nosuch'']\<rparr>) (advancedPrompt root0 (\<lambda>_. None))
       = ([InitDefaultHelpCmd, DisableDefaultCmd, AddCommand ''exit'' ''Exit prompt'',
           PersistentBoolP ''persist-flag-values'' [] False
             ''Persist last given value for flags'',
           Open ''/dev/tty'', Tcgetattr 3, Tcsetattr 3 (Some 7)], Returned)
   \<and> OnErrorFunc (advancedPrompt root0 (\<lambda>_. None)) = Some advanced_OnErrorFunc"
  by (simp add: Executor_def env0_def globals0_def Run_def RunContext_def simplePrompt_def
      advancedPrompt_def prepare_def PersistFlagValuesFlag_def)







text \<open>
  C9: the default tokenizer is not total. On the line \<^verbatim>\<open>run "\<close> the second match is
  the single character \<^verbatim>\<open>"\<close>; it has the quote both as prefix and as suffix, so the
  slice \<^verbatim>\<open>match[1:len(match)-1]\<close> is \<^verbatim>\<open>match[1:0]\<close> and the function panics with a
  slice-bounds violation instead of returning the quote as a token.
\<close>

theorem parseArgsWithQuotes_lone_quote_panics:
  \<open>FindAllString ''run "'' = [''run'', ''"'']
   \<and> parseArgsWithQuotes ''run "'' = Inl (SliceBounds 1 0)\<close>
  by (simp add: parseArgsWithQuotes_def match_here_def match_quoted_def match_nonspace_def
      quote_def re_space_def HasPrefix_def HasSuffix_def slice_def)

text \<open>
  C10: \<^verbatim>\<open>RunContext\<close> does not read its context: two runs that differ in the context
  only have the same events and the same outcome, and \<^verbatim>\<open>Run\<close>, which passes the nil
  context, is any of them.
\<close>

theorem RunContext_ignores_ctx:
  "RunContext env co ctx = RunContext env co ctx' \<and> Run env co = RunContext env co ctx"
  by (simp add: RunContext_def Run_def)

end
